theory Spec2Isabelle
  imports Main
begin

section \<open>Values of the JavaScript runtime\<close>

text \<open>
  A JavaScript string is modelled as a \<^typ>\<open>string\<close>; a \<^typ>\<open>char\<close> stands for one
  code unit in the range U+0000 .. U+00FF. A property that may be \<open>undefined\<close> is an
  \<^typ>\<open>'a option\<close>. A thrown value is an \<open>exn\<close>; a computation that may throw
  returns \<open>exn + 'a\<close> with \<open>Inl\<close> for the thrown value.
\<close>

datatype exn =
    Error string            \<comment> \<open>\<open>new Error(message)\<close>\<close>
  | TypeError               \<comment> \<open>property access on \<open>undefined\<close>, iteration over \<open>undefined\<close>\<close>
  | SyntaxError             \<comment> \<open>raised by \<open>JSON.parse\<close>\<close>
  | ApiError nat string     \<comment> \<open>a rejection of the remote service: status and message\<close>

text \<open>A template literal \<open>`${x}`\<close> prints an \<open>undefined\<close> value as the text \<open>undefined\<close>.\<close>

definition template :: "string option \<Rightarrow> string" where
  "template x = (case x of None \<Rightarrow> ''undefined'' | Some s \<Rightarrow> s)"

text \<open>
  \<open>String.prototype.trim\<close> removes white space and line terminators from both ends.
  Within U+0000 .. U+00FF these are TAB, LF, VT, FF, CR, SPACE and NBSP (U+00A0).
\<close>

definition is_trim_space :: "char \<Rightarrow> bool" where
  "is_trim_space c \<longleftrightarrow> (of_char c :: nat) \<in> {9, 10, 11, 12, 13, 32, 160}"

definition trim :: "string \<Rightarrow> string" where
  "trim s = rev (dropWhile is_trim_space (rev (dropWhile is_trim_space s)))"

text \<open>
  The value \<open>JSON.parse\<close> returns. A number keeps its source text, because its value
  is a double. An object is the list of its members.
\<close>

datatype json =
    JNull
  | JBool bool
  | JNumber string
  | JString string
  | JArray "json list"
  | JObject "(string \<times> json) list"

section \<open>The interface of the remote model service\<close>

text \<open>
  The request and response shapes of the client library \<open>@google/genai\<close>, as far as
  the service functions build and read them. Every property of a response is optional in
  the library's declarations, so each is an option here.
\<close>

record GoogleGenAI =
  apiKey :: string

record GenerateImagesConfig =
  numberOfImages :: nat
  outputMimeType :: string
  aspectRatio :: string

record GenerateImagesParameters =
  model :: string
  prompt :: string
  config :: GenerateImagesConfig

record Image =
  imageBytes :: "string option"

record GeneratedImage =
  image_field :: "Image option"     \<comment> \<open>the property \<open>image\<close>\<close>

record GenerateImagesResponse =
  generatedImages :: "GeneratedImage list option"

record Blob =
  data :: "string option"
  mimeType :: "string option"

record Part =
  inlineData :: "Blob option"
  part_text :: "string option"      \<comment> \<open>the property \<open>text\<close> of a part\<close>

datatype Modality = TEXT | IMAGE | AUDIO

datatype Type = STRING | ARRAY | OBJECT

datatype Schema = Schema
  (schema_type: Type)
  (description: "string option")
  (items: "Schema option")
  (properties: "(string \<times> Schema) list")
  (required: "string list")

datatype ContentUnion =
    ContentParts "Part list"        \<comment> \<open>\<open>{ parts: [...] }\<close>\<close>
  | ContentString string

record GenerateContentConfig =
  responseModalities :: "Modality list option"
  responseMimeType :: "string option"
  responseSchema :: "Schema option"

record GenerateContentParameters =
  content_model :: string           \<comment> \<open>the property \<open>model\<close>\<close>
  contents :: ContentUnion
  content_config :: GenerateContentConfig    \<comment> \<open>the property \<open>config\<close>\<close>

record Content =
  parts :: "Part list option"

record Candidate =
  content :: "Content option"

record GenerateContentResponse =
  candidates :: "Candidate list option"
  response_text :: "string option"  \<comment> \<open>the accessor \<open>text\<close> of a response\<close>

text \<open>
  What a call can observe of its surroundings: the environment variable, the outcome of
  a remote call made by a client for a request (a response, or a thrown value), and the
  runtime's \<open>JSON.parse\<close>.
\<close>

record world =
  API_KEY :: "string option"
  models_generateImages :: "GoogleGenAI \<Rightarrow> GenerateImagesParameters \<Rightarrow> exn + GenerateImagesResponse"
  models_generateContent :: "GoogleGenAI \<Rightarrow> GenerateContentParameters \<Rightarrow> exn + GenerateContentResponse"
  JSON_parse :: "string \<Rightarrow> exn + json"

text \<open>What a call does besides returning: remote calls issued and lines logged, in order.\<close>

datatype event =
    CallGenerateImages GoogleGenAI GenerateImagesParameters
  | CallGenerateContent GoogleGenAI GenerateContentParameters
  | ConsoleError string exn

type_synonym 'a outcome = "(exn + 'a) \<times> event list"

section \<open>The service functions\<close>

text \<open>\<open>!apiKey\<close> holds for \<open>undefined\<close> and for the empty string.\<close>

definition getAiClient :: "world \<Rightarrow> exn + GoogleGenAI" where
  "getAiClient w =
     (case API_KEY w of
        None \<Rightarrow> Inl (Error ''API_KEY environment variable not set'')
      | Some k \<Rightarrow>
          if k = [] then Inl (Error ''API_KEY environment variable not set'')
          else Inr \<lparr>apiKey = k\<rparr>)"

text \<open>
  The \<open>catch\<close> block shared by the three functions: log the caught value under a label,
  throw a new error with a fixed message.
\<close>

definition catch_log_rethrow :: "string \<Rightarrow> string \<Rightarrow> 'a outcome \<Rightarrow> 'a outcome" where
  "catch_log_rethrow label msg r =
     (case r of
        (Inl e, evs) \<Rightarrow> (Inl (Error msg), evs @ [ConsoleError label e])
      | (Inr v, evs) \<Rightarrow> (Inr v, evs))"

subsection \<open>generateImage\<close>

definition generateImages_request :: "string \<Rightarrow> GenerateImagesParameters" where
  "generateImages_request p =
     \<lparr>model = ''imagen-4.0-generate-001'',
      prompt = p,
      config = \<lparr>numberOfImages = 1, outputMimeType = ''image/jpeg'', aspectRatio = ''1:1''\<rparr>\<rparr>"

text \<open>The part of the \<open>try\<close> block after the response has arrived.\<close>

definition generateImage_result :: "GenerateImagesResponse \<Rightarrow> exn + string" where
  "generateImage_result response =
     (case generatedImages response of
        None \<Rightarrow> Inl (Error ''No image was generated. The response may have been blocked.'')
      | Some [] \<Rightarrow> Inl (Error ''No image was generated. The response may have been blocked.'')
      | Some (g # gs) \<Rightarrow>
          (case image_field g of
             None \<Rightarrow> Inl TypeError
           | Some im \<Rightarrow> Inr (''data:image/jpeg;base64,'' @ template (imageBytes im))))"

definition generateImage_try :: "world \<Rightarrow> string \<Rightarrow> string outcome" where
  "generateImage_try w p =
     (case getAiClient w of
        Inl e \<Rightarrow> (Inl e, [])
      | Inr ai \<Rightarrow>
          (case models_generateImages w ai (generateImages_request p) of
             Inl e \<Rightarrow> (Inl e, [CallGenerateImages ai (generateImages_request p)])
           | Inr response \<Rightarrow>
               (generateImage_result response,
                [CallGenerateImages ai (generateImages_request p)])))"

definition GenerationFailed :: exn where
  "GenerationFailed = Error ''Failed to generate image. Please check the prompt or try again later.''"

definition generateImage :: "world \<Rightarrow> string \<Rightarrow> string outcome" where
  "generateImage w p =
     catch_log_rethrow ''Error generating image:''
       ''Failed to generate image. Please check the prompt or try again later.''
       (generateImage_try w p)"

subsection \<open>editImage\<close>

definition EditFailed :: exn where
  "EditFailed = Error ''Failed to edit image. Please check the prompt or try again later.''"

definition editImage_request :: "string \<Rightarrow> string \<Rightarrow> string \<Rightarrow> GenerateContentParameters" where
  "editImage_request base64Image mt p =
     (let imagePart = \<lparr>inlineData = Some \<lparr>data = Some base64Image, mimeType = Some mt\<rparr>,
                        part_text = None\<rparr>;
          textPart = \<lparr>inlineData = None, part_text = Some p\<rparr>
      in \<lparr>content_model = ''gemini-2.5-flash-image'',
          contents = ContentParts [imagePart, textPart],
          content_config = \<lparr>responseModalities = Some [IMAGE],
                            responseMimeType = None,
                            responseSchema = None\<rparr>\<rparr>)"

text \<open>
  \<open>response.candidates[0].content.parts\<close>, as the \<open>for ... of\<close> loop needs it: reading a
  property of \<open>undefined\<close> and iterating over \<open>undefined\<close> both throw a \<open>TypeError\<close>.
\<close>

definition editImage_parts :: "GenerateContentResponse \<Rightarrow> exn + Part list" where
  "editImage_parts response =
     (case candidates response of
        None \<Rightarrow> Inl TypeError
      | Some [] \<Rightarrow> Inl TypeError
      | Some (c # cs) \<Rightarrow>
          (case content c of
             None \<Rightarrow> Inl TypeError
           | Some ct \<Rightarrow>
               (case parts ct of
                  None \<Rightarrow> Inl TypeError
                | Some ps \<Rightarrow> Inr ps)))"

text \<open>The loop over the parts, and the \<open>throw\<close> that follows it.\<close>

fun editImage_loop :: "Part list \<Rightarrow> exn + string" where
  "editImage_loop [] =
     Inl (Error ''No edited image was generated. The response may have been blocked.'')"
| "editImage_loop (part # rest) =
     (case inlineData part of
        Some blob \<Rightarrow> Inr (''data:'' @ template (mimeType blob) @ '';base64,'' @ template (data blob))
      | None \<Rightarrow> editImage_loop rest)"

definition editImage_result :: "GenerateContentResponse \<Rightarrow> exn + string" where
  "editImage_result response =
     (case editImage_parts response of
        Inl e \<Rightarrow> Inl e
      | Inr ps \<Rightarrow> editImage_loop ps)"

definition editImage_try :: "world \<Rightarrow> string \<Rightarrow> string \<Rightarrow> string \<Rightarrow> string outcome" where
  "editImage_try w base64Image mt p =
     (case getAiClient w of
        Inl e \<Rightarrow> (Inl e, [])
      | Inr ai \<Rightarrow>
          (case models_generateContent w ai (editImage_request base64Image mt p) of
             Inl e \<Rightarrow> (Inl e, [CallGenerateContent ai (editImage_request base64Image mt p)])
           | Inr response \<Rightarrow>
               (editImage_result response,
                [CallGenerateContent ai (editImage_request base64Image mt p)])))"

definition editImage :: "world \<Rightarrow> string \<Rightarrow> string \<Rightarrow> string \<Rightarrow> string outcome" where
  "editImage w base64Image mt p =
     catch_log_rethrow ''Error editing image:''
       ''Failed to edit image. Please check the prompt or try again later.''
       (editImage_try w base64Image mt p)"

subsection \<open>getPosturePrompts\<close>

definition PromptFetchFailed :: exn where
  "PromptFetchFailed = Error ''Failed to fetch posture prompt ideas.''"

definition posture_prompt_text :: string where
  "posture_prompt_text =
     ''\<newline>      Generate 8 detailed, creative image editing prompts for a generative AI model like 'nano banana' (gemini-2.5-flash-image).'' @
     ''\<newline>      These prompts should focus on changing a person's posture in an existing photo. For example, 'Make the person stand up straight' or 'Change their pose to be sitting cross-legged'.'' @
     ''\<newline>      Each prompt should include a short, catchy title and the detailed prompt text.'' @
     ''\<newline>      Ensure the output is a valid JSON array of objects, where each object has 'title' and 'prompt' keys.'' @
     ''\<newline>    ''"

definition posture_schema :: Schema where
  "posture_schema =
     Schema ARRAY None
       (Some (Schema OBJECT None None
          [(''title'', Schema STRING (Some ''The short, catchy title of the prompt.'') None [] []),
           (''prompt'', Schema STRING (Some ''The detailed prompt for editing an image posture.'')
              None [] [])]
          [''title'', ''prompt'']))
       [] []"

definition getPosturePrompts_request :: GenerateContentParameters where
  "getPosturePrompts_request =
     \<lparr>content_model = ''gemini-2.5-flash'',
      contents = ContentString posture_prompt_text,
      content_config = \<lparr>responseModalities = None,
                        responseMimeType = Some ''application/json'',
                        responseSchema = Some posture_schema\<rparr>\<rparr>"

text \<open>
  \<open>response.text.trim()\<close> throws a \<open>TypeError\<close> when the response has no text. The cast
  \<open>as PosturePrompt[]\<close> is erased at run time: the parsed value is returned.
\<close>

definition getPosturePrompts_result :: "world \<Rightarrow> GenerateContentResponse \<Rightarrow> exn + json" where
  "getPosturePrompts_result w response =
     (case response_text response of
        None \<Rightarrow> Inl TypeError
      | Some t \<Rightarrow> JSON_parse w (trim t))"

definition getPosturePrompts_try :: "world \<Rightarrow> json outcome" where
  "getPosturePrompts_try w =
     (case getAiClient w of
        Inl e \<Rightarrow> (Inl e, [])
      | Inr ai \<Rightarrow>
          (case models_generateContent w ai getPosturePrompts_request of
             Inl e \<Rightarrow> (Inl e, [CallGenerateContent ai getPosturePrompts_request])
           | Inr response \<Rightarrow>
               (getPosturePrompts_result w response,
                [CallGenerateContent ai getPosturePrompts_request])))"

definition getPosturePrompts :: "world \<Rightarrow> json outcome" where
  "getPosturePrompts w =
     catch_log_rethrow ''Error fetching posture prompts:''
       ''Failed to fetch posture prompt ideas.''
       (getPosturePrompts_try w)"

subsection \<open>Names of the specification\<close>

definition ConfigurationError :: exn where
  "ConfigurationError = Error ''API_KEY environment variable not set''"

fun is_remote_call :: "event \<Rightarrow> bool" where
  "is_remote_call (CallGenerateImages ai req) = True"
| "is_remote_call (CallGenerateContent ai req) = True"
| "is_remote_call (ConsoleError label e) = False"

text \<open>Every part of every candidate of a response.\<close>

definition candidate_parts :: "Candidate \<Rightarrow> Part list" where
  "candidate_parts c =
     (case content c of
        None \<Rightarrow> []
      | Some ct \<Rightarrow> (case parts ct of None \<Rightarrow> [] | Some ps \<Rightarrow> ps))"

definition all_parts :: "GenerateContentResponse \<Rightarrow> Part list" where
  "all_parts response =
     (case candidates response of
        None \<Rightarrow> []
      | Some cs \<Rightarrow> concat (map candidate_parts cs))"

text \<open>
  The shape the specification expects of a suggestion: an object whose \<open>title\<close> and
  \<open>prompt\<close> members are non-empty strings.
\<close>

definition nonempty_string_member :: "string \<Rightarrow> (string \<times> json) list \<Rightarrow> bool" where
  "nonempty_string_member k ms =
     (case map_of ms k of
        Some (JString s) \<Rightarrow> s \<noteq> []
      | _ \<Rightarrow> False)"

fun spec_PosturePrompt :: "json \<Rightarrow> bool" where
  "spec_PosturePrompt (JObject ms) =
     (nonempty_string_member ''title'' ms \<and> nonempty_string_member ''prompt'' ms)"
| "spec_PosturePrompt v = False"

fun spec_PosturePrompts :: "json \<Rightarrow> bool" where
  "spec_PosturePrompts (JArray xs) = list_all spec_PosturePrompt xs"
| "spec_PosturePrompts v = False"

section \<open>A JSON parser\<close>

text \<open>
  \<open>JSON.parse\<close> belongs to the runtime, and the theorems on \<open>getPosturePrompts\<close> hold
  for whatever function the world supplies. To run the function on a concrete response
  text, this section gives a parser for the JSON grammar of ECMA-404: a lexer over the
  characters, then a stack machine over the tokens. Two simplifications: an escape
  \<open>\uXXXX\<close> above U+00FF lies outside the modelled strings and is refused, and the
  members of an object stay in the order of the text (a repeated key keeps its first
  position with the later value), also where ECMAScript would list integer-like keys
  first.
\<close>

datatype token =
    TLBracket | TRBracket | TLBrace | TRBrace | TColon | TComma
  | TString string
  | TWord string      \<comment> \<open>a run of letters, digits, \<open>+\<close>, \<open>-\<close> and \<open>.\<close>\<close>

datatype lexer =
    LIdle
  | LWord string
  | LString string
  | LEscape string
  | LUnicode string string

definition is_json_space :: "char \<Rightarrow> bool" where
  "is_json_space c \<longleftrightarrow> c \<in> {CHR 0x20, CHR 0x09, CHR 0x0A, CHR 0x0D}"

definition is_digit :: "char \<Rightarrow> bool" where
  "is_digit c \<longleftrightarrow> c \<in> set ''0123456789''"

definition is_word_char :: "char \<Rightarrow> bool" where
  "is_word_char c \<longleftrightarrow>
     c \<in> set ''0123456789+-.abcdefghijklmnopqrstuvwxyzABCDEFGHIJKLMNOPQRSTUVWXYZ''"

definition punctuation :: "char \<Rightarrow> token option" where
  "punctuation c =
     (if c = CHR ''['' then Some TLBracket
      else if c = CHR '']'' then Some TRBracket
      else if c = CHR ''{'' then Some TLBrace
      else if c = CHR ''}'' then Some TRBrace
      else if c = CHR '':'' then Some TColon
      else if c = CHR '','' then Some TComma
      else None)"

definition hex_digit :: "char \<Rightarrow> nat option" where
  "hex_digit c =
     (if is_digit c then Some (of_char c - 48)
      else if c \<in> set ''abcdef'' then Some (of_char c - 87)
      else if c \<in> set ''ABCDEF'' then Some (of_char c - 55)
      else None)"

definition simple_escape :: "char \<Rightarrow> char option" where
  "simple_escape c =
     (if c = CHR 0x22 \<or> c = CHR 0x5C \<or> c = CHR ''/'' then Some c
      else if c = CHR ''b'' then Some (CHR 0x08)
      else if c = CHR ''f'' then Some (CHR 0x0C)
      else if c = CHR ''n'' then Some (CHR 0x0A)
      else if c = CHR ''r'' then Some (CHR 0x0D)
      else if c = CHR ''t'' then Some (CHR 0x09)
      else None)"

fun lex :: "lexer \<Rightarrow> string \<Rightarrow> token list option" where
  "lex LIdle [] = Some []"
| "lex (LWord w) [] = Some [TWord w]"
| "lex (LString s) [] = None"
| "lex (LEscape s) [] = None"
| "lex (LUnicode s h) [] = None"
| "lex LIdle (c # cs) =
     (if is_json_space c then lex LIdle cs
      else if c = CHR 0x22 then lex (LString []) cs
      else if is_word_char c then lex (LWord [c]) cs
      else (case punctuation c of
              None \<Rightarrow> None
            | Some t \<Rightarrow> map_option (Cons t) (lex LIdle cs)))"
| "lex (LWord w) (c # cs) =
     (if is_word_char c then lex (LWord (w @ [c])) cs
      else if is_json_space c then map_option (Cons (TWord w)) (lex LIdle cs)
      else (case punctuation c of
              None \<Rightarrow> None
            | Some t \<Rightarrow> map_option (\<lambda>ts. TWord w # t # ts) (lex LIdle cs)))"
| "lex (LString s) (c # cs) =
     (if c = CHR 0x22 then map_option (Cons (TString s)) (lex LIdle cs)
      else if c = CHR 0x5C then lex (LEscape s) cs
      else if (of_char c :: nat) < 32 then None
      else lex (LString (s @ [c])) cs)"
| "lex (LEscape s) (c # cs) =
     (if c = CHR ''u'' then lex (LUnicode s []) cs
      else (case simple_escape c of
              None \<Rightarrow> None
            | Some e \<Rightarrow> lex (LString (s @ [e])) cs))"
| "lex (LUnicode s h) (c # cs) =
     (case hex_digit c of
        None \<Rightarrow> None
      | Some d \<Rightarrow>
          if length h < 3 then lex (LUnicode s (h @ [c])) cs
          else (case map hex_digit h of
                  [Some d1, Some d2, Some d3] \<Rightarrow>
                    if d1 = 0 \<and> d2 = 0 then lex (LString (s @ [char_of (16 * d3 + d)])) cs
                    else None
                | _ \<Rightarrow> None))"

text \<open>The number grammar: \<open>-? (0 | [1-9][0-9]*) (. [0-9]+)? ([eE] [+-]? [0-9]+)?\<close>.\<close>

definition is_exponent :: "string \<Rightarrow> bool" where
  "is_exponent s =
     (case s of
        [] \<Rightarrow> True
      | e # r \<Rightarrow>
          (e = CHR ''e'' \<or> e = CHR ''E'') \<and>
          (let ds = (case r of
                       [] \<Rightarrow> []
                     | x # r' \<Rightarrow> if x = CHR ''+'' \<or> x = CHR ''-'' then r' else r)
           in ds \<noteq> [] \<and> list_all is_digit ds))"

definition is_fraction_exponent :: "string \<Rightarrow> bool" where
  "is_fraction_exponent s =
     (case s of
        [] \<Rightarrow> True
      | d # r \<Rightarrow>
          if d = CHR ''.'' then takeWhile is_digit r \<noteq> [] \<and> is_exponent (dropWhile is_digit r)
          else is_exponent s)"

definition is_json_number :: "string \<Rightarrow> bool" where
  "is_json_number s =
     (let u = (case s of [] \<Rightarrow> [] | x # r \<Rightarrow> if x = CHR ''-'' then r else s);
          ds = takeWhile is_digit u
      in ds \<noteq> [] \<and> (ds = ''0'' \<or> hd ds \<noteq> CHR ''0'') \<and>
         is_fraction_exponent (dropWhile is_digit u))"

definition word_value :: "string \<Rightarrow> json option" where
  "word_value w =
     (if w = ''true'' then Some (JBool True)
      else if w = ''false'' then Some (JBool False)
      else if w = ''null'' then Some JNull
      else if is_json_number w then Some (JNumber w)
      else None)"

datatype frame =
    FArray "json list"                        \<comment> \<open>inside an array: the elements so far\<close>
  | FObject "(string \<times> json) list"            \<comment> \<open>inside an object: the members so far\<close>
  | FMember "(string \<times> json) list" string     \<comment> \<open>inside an object, after a key\<close>

datatype mode =
    MValue          \<comment> \<open>a value must follow\<close>
  | MArrayStart     \<comment> \<open>after \<open>[\<close>\<close>
  | MObjectStart    \<comment> \<open>after \<open>{\<close>\<close>
  | MKey            \<comment> \<open>after a comma in an object\<close>
  | MColon          \<comment> \<open>after a key\<close>
  | MNext           \<comment> \<open>after a value inside an array or object\<close>
  | MDone json      \<comment> \<open>the text's value is complete\<close>

fun set_member :: "string \<Rightarrow> json \<Rightarrow> (string \<times> json) list \<Rightarrow> (string \<times> json) list" where
  "set_member k v [] = [(k, v)]"
| "set_member k v ((k', v') # ms) =
     (if k' = k then (k, v) # ms else (k', v') # set_member k v ms)"

definition put_value :: "json \<Rightarrow> frame list \<Rightarrow> (mode \<times> frame list) option" where
  "put_value v st =
     (case st of
        [] \<Rightarrow> Some (MDone v, [])
      | FArray xs # st' \<Rightarrow> Some (MNext, FArray (xs @ [v]) # st')
      | FObject ms # st' \<Rightarrow> None
      | FMember ms k # st' \<Rightarrow> Some (MNext, FObject (set_member k v ms) # st'))"

definition start_value :: "token \<Rightarrow> frame list \<Rightarrow> (mode \<times> frame list) option" where
  "start_value t st =
     (case t of
        TLBracket \<Rightarrow> Some (MArrayStart, FArray [] # st)
      | TLBrace \<Rightarrow> Some (MObjectStart, FObject [] # st)
      | TString s \<Rightarrow> put_value (JString s) st
      | TWord w \<Rightarrow> (case word_value w of None \<Rightarrow> None | Some v \<Rightarrow> put_value v st)
      | _ \<Rightarrow> None)"

definition close_array :: "frame list \<Rightarrow> (mode \<times> frame list) option" where
  "close_array st = (case st of FArray xs # st' \<Rightarrow> put_value (JArray xs) st' | _ \<Rightarrow> None)"

definition close_object :: "frame list \<Rightarrow> (mode \<times> frame list) option" where
  "close_object st = (case st of FObject ms # st' \<Rightarrow> put_value (JObject ms) st' | _ \<Rightarrow> None)"

definition read_key :: "token \<Rightarrow> frame list \<Rightarrow> (mode \<times> frame list) option" where
  "read_key t st =
     (case (t, st) of
        (TString k, FObject ms # st') \<Rightarrow> Some (MColon, FMember ms k # st')
      | _ \<Rightarrow> None)"

definition parse_step :: "mode \<Rightarrow> frame list \<Rightarrow> token \<Rightarrow> (mode \<times> frame list) option" where
  "parse_step m st t =
     (case m of
        MValue \<Rightarrow> start_value t st
      | MArrayStart \<Rightarrow> if t = TRBracket then close_array st else start_value t st
      | MObjectStart \<Rightarrow> if t = TRBrace then close_object st else read_key t st
      | MKey \<Rightarrow> read_key t st
      | MColon \<Rightarrow> if t = TColon then Some (MValue, st) else None
      | MNext \<Rightarrow>
          if t = TRBracket then close_array st
          else if t = TRBrace then close_object st
          else if t = TComma then
            (case st of
               FArray xs # st' \<Rightarrow> Some (MValue, st)
             | FObject ms # st' \<Rightarrow> Some (MKey, st)
             | _ \<Rightarrow> None)
          else None
      | MDone v \<Rightarrow> None)"

fun parse_tokens :: "mode \<Rightarrow> frame list \<Rightarrow> token list \<Rightarrow> json option" where
  "parse_tokens m st [] = (case m of MDone v \<Rightarrow> Some v | _ \<Rightarrow> None)"
| "parse_tokens m st (t # ts) =
     (case parse_step m st t of
        None \<Rightarrow> None
      | Some (m', st') \<Rightarrow> parse_tokens m' st' ts)"

definition json_parse :: "string \<Rightarrow> exn + json" where
  "json_parse s =
     (case lex LIdle s of
        None \<Rightarrow> Inl SyntaxError
      | Some ts \<Rightarrow>
          (case parse_tokens MValue [] ts of
             None \<Rightarrow> Inl SyntaxError
           | Some v \<Rightarrow> Inr v))"

section \<open>Stub worlds\<close>

text \<open>
  Worlds with a stubbed remote service, to run the functions on concrete inputs. The
  stub answers an image-generation request with one JPEG artifact, an editing request
  (model \<open>gemini-2.5-flash-image\<close>) with a text part, a PNG part and a GIF part in this
  order, and any other content request with a JSON text of eight suggestions.
\<close>

definition stub_images_response :: GenerateImagesResponse where
  "stub_images_response =
     \<lparr>generatedImages = Some [\<lparr>image_field = Some \<lparr>imageBytes = Some ''/9j/4AAQSkZJRg==''\<rparr>\<rparr>]\<rparr>"

definition stub_text_part :: Part where
  "stub_text_part = \<lparr>inlineData = None, part_text = Some ''ok''\<rparr>"

definition stub_png_blob :: Blob where
  "stub_png_blob = \<lparr>data = Some ''iVBORw0KGgo='', mimeType = Some ''image/png''\<rparr>"

definition stub_png_part :: Part where
  "stub_png_part = \<lparr>inlineData = Some stub_png_blob, part_text = None\<rparr>"

definition stub_gif_part :: Part where
  "stub_gif_part =
     \<lparr>inlineData = Some \<lparr>data = Some ''R0lGODlh'', mimeType = Some ''image/gif''\<rparr>,
      part_text = None\<rparr>"

definition stub_edit_content :: Content where
  "stub_edit_content = \<lparr>parts = Some [stub_text_part, stub_png_part, stub_gif_part]\<rparr>"

definition stub_edit_candidate :: Candidate where
  "stub_edit_candidate = \<lparr>content = Some stub_edit_content\<rparr>"

definition stub_edit_response :: GenerateContentResponse where
  "stub_edit_response =
     \<lparr>candidates = Some [stub_edit_candidate], response_text = Some ''ok''\<rparr>"

definition stub_prompts_text :: string where
  \<open>stub_prompts_text =
     ''[{"title":"Stand Tall","prompt":"Make the person stand up straight."},'' @
     '' {"title":"Sit Down","prompt":"Seat the person on a chair."},'' @
     '' {"title":"Cross Legs","prompt":"Change the pose to sitting cross-legged."},'' @
     '' {"title":"Arms Up","prompt":"Raise both arms above the head."},'' @
     '' {"title":"Lean Back","prompt":"Lean the person against the wall."},'' @
     '' {"title":"Kneel","prompt":"Put the person on one knee."},'' @
     '' {"title":"Jump","prompt":"Show the person in mid jump."},'' @
     '' {"title":"Wave","prompt":"Make the person wave the right hand."}]\<newline>''\<close>

definition stub_prompts :: "json list" where
  "stub_prompts =
     [JObject [(''title'', JString ''Stand Tall''),
               (''prompt'', JString ''Make the person stand up straight.'')],
      JObject [(''title'', JString ''Sit Down''),
               (''prompt'', JString ''Seat the person on a chair.'')],
      JObject [(''title'', JString ''Cross Legs''),
               (''prompt'', JString ''Change the pose to sitting cross-legged.'')],
      JObject [(''title'', JString ''Arms Up''),
               (''prompt'', JString ''Raise both arms above the head.'')],
      JObject [(''title'', JString ''Lean Back''),
               (''prompt'', JString ''Lean the person against the wall.'')],
      JObject [(''title'', JString ''Kneel''),
               (''prompt'', JString ''Put the person on one knee.'')],
      JObject [(''title'', JString ''Jump''),
               (''prompt'', JString ''Show the person in mid jump.'')],
      JObject [(''title'', JString ''Wave''),
               (''prompt'', JString ''Make the person wave the right hand.'')]]"

definition stub_prompts_response :: GenerateContentResponse where
  "stub_prompts_response = \<lparr>candidates = None, response_text = Some stub_prompts_text\<rparr>"

definition stub_generateImages ::
  "GoogleGenAI \<Rightarrow> GenerateImagesParameters \<Rightarrow> exn + GenerateImagesResponse" where
  "stub_generateImages ai req = Inr stub_images_response"

definition stub_generateContent ::
  "GoogleGenAI \<Rightarrow> GenerateContentParameters \<Rightarrow> exn + GenerateContentResponse" where
  "stub_generateContent ai req =
     (if content_model req = ''gemini-2.5-flash-image'' then Inr stub_edit_response
      else Inr stub_prompts_response)"

definition stub_world :: world where
  "stub_world =
     \<lparr>API_KEY = Some ''test-key'',
      models_generateImages = stub_generateImages,
      models_generateContent = stub_generateContent,
      JSON_parse = json_parse\<rparr>"

text \<open>The same service, with the credential unset and with an empty credential.\<close>

definition no_key_world :: world where
  "no_key_world = stub_world\<lparr>API_KEY := None\<rparr>"

definition empty_key_world :: world where
  "empty_key_world = stub_world\<lparr>API_KEY := Some []\<rparr>"

text \<open>A service that rejects every call.\<close>

definition down_generateImages ::
  "GoogleGenAI \<Rightarrow> GenerateImagesParameters \<Rightarrow> exn + GenerateImagesResponse" where
  "down_generateImages ai req = Inl (ApiError 503 ''The service is currently unavailable.'')"

definition down_generateContent ::
  "GoogleGenAI \<Rightarrow> GenerateContentParameters \<Rightarrow> exn + GenerateContentResponse" where
  "down_generateContent ai req = Inl (ApiError 503 ''The service is currently unavailable.'')"

definition down_world :: world where
  "down_world =
     stub_world\<lparr>models_generateImages := down_generateImages,
                models_generateContent := down_generateContent\<rparr>"

text \<open>
  A service that blocks every request: no generated image, and a candidate whose only
  part is text.
\<close>

definition blocked_content_response :: GenerateContentResponse where
  "blocked_content_response =
     \<lparr>candidates = Some
        [\<lparr>content = Some \<lparr>parts = Some [\<lparr>inlineData = None, part_text = Some ''Sorry.''\<rparr>]\<rparr>\<rparr>],
      response_text = Some ''Sorry.''\<rparr>"

definition blocked_generateImages ::
  "GoogleGenAI \<Rightarrow> GenerateImagesParameters \<Rightarrow> exn + GenerateImagesResponse" where
  "blocked_generateImages ai req = Inr \<lparr>generatedImages = Some []\<rparr>"

definition blocked_generateContent ::
  "GoogleGenAI \<Rightarrow> GenerateContentParameters \<Rightarrow> exn + GenerateContentResponse" where
  "blocked_generateContent ai req = Inr blocked_content_response"

definition blocked_world :: world where
  "blocked_world =
     stub_world\<lparr>models_generateImages := blocked_generateImages,
                models_generateContent := blocked_generateContent\<rparr>"

text \<open>A service whose content response has a candidate without content.\<close>

definition hollow_generateContent ::
  "GoogleGenAI \<Rightarrow> GenerateContentParameters \<Rightarrow> exn + GenerateContentResponse" where
  "hollow_generateContent ai req =
     Inr \<lparr>candidates = Some [\<lparr>content = None\<rparr>], response_text = None\<rparr>"

definition hollow_world :: world where
  "hollow_world = stub_world\<lparr>models_generateContent := hollow_generateContent\<rparr>"

text \<open>
  A service whose text is valid JSON of another shape: the one object has no \<open>prompt\<close>.
\<close>

definition partial_generateContent ::
  "GoogleGenAI \<Rightarrow> GenerateContentParameters \<Rightarrow> exn + GenerateContentResponse" where
  \<open>partial_generateContent ai req =
     Inr \<lparr>candidates = None, response_text = Some '' [{"title":"Stand Tall"}] ''\<rparr>\<close>

definition partial_world :: world where
  "partial_world = stub_world\<lparr>models_generateContent := partial_generateContent\<rparr>"

text \<open>
  A service whose first entry of \<open>generatedImages\<close> has no image (a filtered result)
  and whose second entry has one.
\<close>

definition filtered_images_response :: GenerateImagesResponse where
  "filtered_images_response =
     \<lparr>generatedImages = Some
        [\<lparr>image_field = None\<rparr>,
         \<lparr>image_field = Some \<lparr>imageBytes = Some ''AAAA''\<rparr>\<rparr>]\<rparr>"

definition filtered_generateImages ::
  "GoogleGenAI \<Rightarrow> GenerateImagesParameters \<Rightarrow> exn + GenerateImagesResponse" where
  "filtered_generateImages ai req = Inr filtered_images_response"

definition filtered_world :: world where
  "filtered_world = stub_world\<lparr>models_generateImages := filtered_generateImages\<rparr>"

section \<open>Properties\<close>

subsection \<open>The catch block and the names of the errors\<close>

lemma fst_catch_log_rethrow:
  "fst (catch_log_rethrow label msg r) =
     (case fst r of Inl e \<Rightarrow> Inl (Error msg) | Inr v \<Rightarrow> Inr v)"
  by (cases r) (simp add: catch_log_rethrow_def split: sum.splits)

lemma getAiClient_cases:
  "getAiClient w = Inl ConfigurationError \<and> (API_KEY w = None \<or> API_KEY w = Some []) \<or>
   (\<exists>k. k \<noteq> [] \<and> API_KEY w = Some k \<and> getAiClient w = Inr \<lparr>apiKey = k\<rparr>)"
  by (simp add: getAiClient_def ConfigurationError_def split: option.splits)

lemma getAiClient_missing:
  "API_KEY w = None \<or> API_KEY w = Some [] \<Longrightarrow> getAiClient w = Inl ConfigurationError"
  by (auto simp: getAiClient_def ConfigurationError_def)

lemma errors_distinct:
  "GenerationFailed \<noteq> ConfigurationError"
  "EditFailed \<noteq> ConfigurationError"
  "PromptFetchFailed \<noteq> ConfigurationError"
  by (simp_all add: GenerationFailed_def EditFailed_def PromptFetchFailed_def
      ConfigurationError_def)

subsection \<open>generateImage\<close>

lemma generateImage_no_client:
  "getAiClient w = Inl e \<Longrightarrow>
   generateImage w p = (Inl GenerationFailed, [ConsoleError ''Error generating image:'' e])"
  by (simp add: generateImage_def generateImage_try_def catch_log_rethrow_def
      GenerationFailed_def)

lemma generateImage_remote_error:
  "getAiClient w = Inr ai \<Longrightarrow>
   models_generateImages w ai (generateImages_request p) = Inl e \<Longrightarrow>
   generateImage w p =
     (Inl GenerationFailed,
      [CallGenerateImages ai (generateImages_request p),
       ConsoleError ''Error generating image:'' e])"
  by (simp add: generateImage_def generateImage_try_def catch_log_rethrow_def
      GenerationFailed_def)

lemma generateImage_response:
  "getAiClient w = Inr ai \<Longrightarrow>
   models_generateImages w ai (generateImages_request p) = Inr r \<Longrightarrow>
   fst (generateImage w p) =
     (case generateImage_result r of Inl e \<Rightarrow> Inl GenerationFailed | Inr s \<Rightarrow> Inr s)"
  by (simp add: generateImage_def generateImage_try_def fst_catch_log_rethrow
      GenerationFailed_def split: sum.splits)

text \<open>
  The first entry of \<open>generatedImages\<close> decides alone. Without an image, reading its
  bytes throws and the call fails; an image without bytes is printed as \<open>undefined\<close>.
\<close>

lemma generateImage_entry_without_image:
  "getAiClient w = Inr ai \<Longrightarrow>
   models_generateImages w ai (generateImages_request p) = Inr r \<Longrightarrow>
   generatedImages r = Some (g # gs) \<Longrightarrow>
   image_field g = None \<Longrightarrow>
   fst (generateImage w p) = Inl GenerationFailed"
  by (simp add: generateImage_response generateImage_result_def)

lemma generateImage_image_without_bytes:
  "getAiClient w = Inr ai \<Longrightarrow>
   models_generateImages w ai (generateImages_request p) = Inr r \<Longrightarrow>
   generatedImages r = Some (g # gs) \<Longrightarrow>
   image_field g = Some im \<Longrightarrow>
   imageBytes im = None \<Longrightarrow>
   fst (generateImage w p) = Inr ''data:image/jpeg;base64,undefined''"
  by (simp add: generateImage_response generateImage_result_def template_def)

text \<open>
  C4, as the code has it. The code tests the length of \<open>generatedImages\<close> and then reads
  the first entry alone. With a credential configured, when the remote call returns a
  response whose first entry carries an image with bytes \<open>b\<close>, \<open>generateImage\<close> succeeds
  with \<open>data:image/jpeg;base64,\<close> followed by \<open>b\<close>, for every prompt (the empty one too)
  and whatever entries follow the first. The one remote call made is the request for a
  single image in the encoding \<open>image/jpeg\<close>, which the returned prefix names.
\<close>

theorem generateImage_first_artifact:
  assumes "getAiClient w = Inr ai"
    and "models_generateImages w ai (generateImages_request p) = Inr r"
    and "generatedImages r = Some (g # gs)"
    and "image_field g = Some im"
    and "imageBytes im = Some b"
  shows "generateImage w p =
           (Inr (''data:image/jpeg;base64,'' @ b),
            [CallGenerateImages ai (generateImages_request p)]) \<and>
         outputMimeType (config (generateImages_request p)) = ''image/jpeg'' \<and>
         numberOfImages (config (generateImages_request p)) = 1 \<and>
         prompt (generateImages_request p) = p"
proof -
  have "generateImage_result r = Inr (''data:image/jpeg;base64,'' @ b)"
    using assms(3-5) by (simp add: generateImage_result_def template_def)
  then have "generateImage w p =
      (Inr (''data:image/jpeg;base64,'' @ b), [CallGenerateImages ai (generateImages_request p)])"
    using assms(1,2)
    by (simp add: generateImage_def generateImage_try_def catch_log_rethrow_def)
  then show ?thesis
    by (simp add: generateImages_request_def)
qed

theorem generateImage_first_artifact_witness:
  "generateImage stub_world ''a red cube'' =
     (Inr ''data:image/jpeg;base64,/9j/4AAQSkZJRg=='',
      [CallGenerateImages \<lparr>apiKey = ''test-key''\<rparr> (generateImages_request ''a red cube'')]) \<and>
   outputMimeType (config (generateImages_request ''a red cube'')) = ''image/jpeg''"
  using generateImage_first_artifact [of stub_world "\<lparr>apiKey = ''test-key''\<rparr>" "''a red cube''"
      stub_images_response "\<lparr>image_field = Some \<lparr>imageBytes = Some ''/9j/4AAQSkZJRg==''\<rparr>\<rparr>" "[]"
      "\<lparr>imageBytes = Some ''/9j/4AAQSkZJRg==''\<rparr>" "''/9j/4AAQSkZJRg==''"]
  by (simp add: stub_world_def getAiClient_def stub_generateImages_def stub_images_response_def)

text \<open>
  C4, as the claim states it, fails: for the non-empty prompt \<open>a red cube\<close> the response
  has two entries, the second an image artifact with bytes, and the call fails with
  \<open>GenerationFailed\<close>, because the first entry has no image.
\<close>

theorem generateImage_first_artifact_counterexample:
  "models_generateImages filtered_world \<lparr>apiKey = ''test-key''\<rparr>
     (generateImages_request ''a red cube'') = Inr filtered_images_response \<and>
   generatedImages filtered_images_response =
     Some [\<lparr>image_field = None\<rparr>, \<lparr>image_field = Some \<lparr>imageBytes = Some ''AAAA''\<rparr>\<rparr>] \<and>
   fst (generateImage filtered_world ''a red cube'') = Inl GenerationFailed"
  by (simp add: filtered_world_def stub_world_def filtered_generateImages_def
      filtered_images_response_def generateImage_def generateImage_try_def
      generateImage_result_def getAiClient_def catch_log_rethrow_def GenerationFailed_def)

text \<open>
  C5. When the remote image-generation call returns a response with no artifact
  (\<open>generatedImages\<close> undefined or empty), \<open>generateImage\<close> fails with \<open>GenerationFailed\<close>;
  the detailed message is logged, and no success value is returned.
\<close>

theorem generateImage_zero_artifacts:
  assumes "getAiClient w = Inr ai"
    and "models_generateImages w ai (generateImages_request p) = Inr r"
    and "generatedImages r = None \<or> generatedImages r = Some []"
  shows "generateImage w p =
           (Inl GenerationFailed,
            [CallGenerateImages ai (generateImages_request p),
             ConsoleError ''Error generating image:''
               (Error ''No image was generated. The response may have been blocked.'')])"
  using assms
  by (auto simp: generateImage_def generateImage_try_def generateImage_result_def
      catch_log_rethrow_def GenerationFailed_def)

theorem generateImage_zero_artifacts_witness:
  "fst (generateImage blocked_world ''a red cube'') = Inl GenerationFailed"
  using generateImage_zero_artifacts [of blocked_world "\<lparr>apiKey = ''test-key''\<rparr>" "''a red cube''"
      "\<lparr>generatedImages = Some []\<rparr>"]
  by (simp add: blocked_world_def stub_world_def getAiClient_def blocked_generateImages_def)

subsection \<open>editImage\<close>

lemma editImage_no_client:
  "getAiClient w = Inl e \<Longrightarrow>
   editImage w b m q = (Inl EditFailed, [ConsoleError ''Error editing image:'' e])"
  by (simp add: editImage_def editImage_try_def catch_log_rethrow_def EditFailed_def)

lemma editImage_remote_error:
  "getAiClient w = Inr ai \<Longrightarrow>
   models_generateContent w ai (editImage_request b m q) = Inl e \<Longrightarrow>
   editImage w b m q =
     (Inl EditFailed,
      [CallGenerateContent ai (editImage_request b m q),
       ConsoleError ''Error editing image:'' e])"
  by (simp add: editImage_def editImage_try_def catch_log_rethrow_def EditFailed_def)

lemma editImage_response:
  "getAiClient w = Inr ai \<Longrightarrow>
   models_generateContent w ai (editImage_request b m q) = Inr r \<Longrightarrow>
   editImage w b m q =
     (case editImage_result r of
        Inl e \<Rightarrow>
          (Inl EditFailed,
           [CallGenerateContent ai (editImage_request b m q),
            ConsoleError ''Error editing image:'' e])
      | Inr s \<Rightarrow> (Inr s, [CallGenerateContent ai (editImage_request b m q)]))"
  by (simp add: editImage_def editImage_try_def catch_log_rethrow_def EditFailed_def
      split: sum.splits)

lemma editImage_loop_skip:
  "list_all (\<lambda>x. inlineData x = None) pre \<Longrightarrow>
   editImage_loop (pre @ rest) = editImage_loop rest"
  by (induction pre) simp_all

lemma editImage_loop_no_image:
  "list_all (\<lambda>x. inlineData x = None) ps \<Longrightarrow> \<exists>e. editImage_loop ps = Inl e"
  by (induction ps) simp_all

lemma editImage_parts_all_parts:
  "editImage_parts r = Inr ps \<Longrightarrow> \<exists>rest. all_parts r = ps @ rest"
  by (auto simp: editImage_parts_def all_parts_def candidate_parts_def
      split: option.splits list.splits)

text \<open>
  C3. With a credential configured, when the response's first candidate has parts
  \<open>pre @ part # post\<close>, no part of \<open>pre\<close> carries inline data and \<open>part\<close> carries inline
  data \<open>d\<close> of MIME type \<open>mt\<close>, \<open>editImage\<close> returns \<open>data:mt;base64,d\<close>: the MIME type is
  the response part's, not the input's \<open>m\<close>, and neither \<open>pre\<close> nor \<open>post\<close> nor the
  other candidates appear in the result.
\<close>

theorem editImage_first_inline_part:
  assumes "getAiClient w = Inr ai"
    and "models_generateContent w ai (editImage_request b m q) = Inr r"
    and "candidates r = Some (c # cs)"
    and "content c = Some ct"
    and "parts ct = Some (pre @ part # post)"
    and "list_all (\<lambda>x. inlineData x = None) pre"
    and "inlineData part = Some blob"
    and "mimeType blob = Some mt"
    and "data blob = Some d"
  shows "fst (editImage w b m q) = Inr (''data:'' @ mt @ '';base64,'' @ d)"
proof -
  have "editImage_parts r = Inr (pre @ part # post)"
    using assms(3-5) by (simp add: editImage_parts_def)
  moreover have "editImage_loop (pre @ part # post) = editImage_loop (part # post)"
    using assms(6) by (rule editImage_loop_skip)
  moreover have "editImage_loop (part # post) = Inr (''data:'' @ mt @ '';base64,'' @ d)"
    using assms(7-9) by (simp add: template_def)
  ultimately have "editImage_result r = Inr (''data:'' @ mt @ '';base64,'' @ d)"
    by (simp add: editImage_result_def)
  then show ?thesis
    using assms(1,2) by (simp add: editImage_response)
qed

theorem editImage_first_inline_part_witness:
  "fst (editImage stub_world ''/9j/4AAQSkZJRg=='' ''image/jpeg'' ''rotate 90 degrees'') =
     Inr ''data:image/png;base64,iVBORw0KGgo=''"
  using editImage_first_inline_part [of stub_world "\<lparr>apiKey = ''test-key''\<rparr>"
      "''/9j/4AAQSkZJRg==''" "''image/jpeg''" "''rotate 90 degrees''" stub_edit_response
      stub_edit_candidate "[]" stub_edit_content "[stub_text_part]" stub_png_part
      "[stub_gif_part]" stub_png_blob "''image/png''" "''iVBORw0KGgo=''"]
  by (simp add: stub_world_def getAiClient_def stub_generateContent_def stub_edit_response_def
      stub_edit_candidate_def stub_edit_content_def stub_text_part_def stub_png_part_def
      stub_png_blob_def editImage_request_def)

text \<open>
  C6. When no part of the remote response carries inline data, \<open>editImage\<close> fails with
  \<open>EditFailed\<close>; it returns no success value.
\<close>

theorem editImage_no_inline_part:
  assumes "getAiClient w = Inr ai"
    and "models_generateContent w ai (editImage_request b m q) = Inr r"
    and "list_all (\<lambda>x. inlineData x = None) (all_parts r)"
  shows "fst (editImage w b m q) = Inl EditFailed"
proof (cases "editImage_parts r")
  case (Inl e)
  then show ?thesis
    using assms(1,2) by (simp add: editImage_response editImage_result_def)
next
  case (Inr ps)
  then obtain rest where "all_parts r = ps @ rest"
    using editImage_parts_all_parts by blast
  with assms(3) have "list_all (\<lambda>x. inlineData x = None) ps"
    by simp
  then obtain e where "editImage_loop ps = Inl e"
    using editImage_loop_no_image by blast
  with Inr show ?thesis
    using assms(1,2) by (simp add: editImage_response editImage_result_def)
qed

theorem editImage_no_inline_part_witness:
  "fst (editImage blocked_world ''/9j/4AAQSkZJRg=='' ''image/jpeg'' ''rotate 90 degrees'') =
     Inl EditFailed"
  using editImage_no_inline_part [of blocked_world "\<lparr>apiKey = ''test-key''\<rparr>"
      "''/9j/4AAQSkZJRg==''" "''image/jpeg''" "''rotate 90 degrees''" blocked_content_response]
  by (simp add: blocked_world_def stub_world_def getAiClient_def blocked_generateContent_def
      blocked_content_response_def all_parts_def candidate_parts_def)

text \<open>
  C9. When the response has no candidates, an empty candidate list, a first candidate
  without content, or content without parts, the \<open>TypeError\<close> of the property access is
  caught: \<open>editImage\<close> fails with \<open>EditFailed\<close>, and the \<open>TypeError\<close> is only logged. On
  every input \<open>editImage\<close> either returns a string or fails with \<open>EditFailed\<close>.
\<close>

theorem editImage_malformed_response:
  assumes "getAiClient w = Inr ai"
    and "models_generateContent w ai (editImage_request b m q) = Inr r"
    and "candidates r = None \<or> candidates r = Some [] \<or>
         (\<exists>c cs. candidates r = Some (c # cs) \<and>
            (content c = None \<or> (\<exists>ct. content c = Some ct \<and> parts ct = None)))"
  shows "editImage w b m q =
           (Inl EditFailed,
            [CallGenerateContent ai (editImage_request b m q),
             ConsoleError ''Error editing image:'' TypeError]) \<and>
         (\<forall>w' b' m' q'. fst (editImage w' b' m' q') = Inl EditFailed \<or>
            (\<exists>s. fst (editImage w' b' m' q') = Inr s))"
proof
  have "editImage_parts r = Inl TypeError"
    using assms(3) by (auto simp: editImage_parts_def)
  then show "editImage w b m q =
      (Inl EditFailed,
       [CallGenerateContent ai (editImage_request b m q),
        ConsoleError ''Error editing image:'' TypeError])"
    using assms(1,2) by (simp add: editImage_response editImage_result_def)
next
  show "\<forall>w' b' m' q'. fst (editImage w' b' m' q') = Inl EditFailed \<or>
      (\<exists>s. fst (editImage w' b' m' q') = Inr s)"
    by (simp add: editImage_def fst_catch_log_rethrow EditFailed_def split: sum.splits)
qed

theorem editImage_malformed_response_witness:
  "editImage hollow_world ''/9j/4AAQSkZJRg=='' ''image/jpeg'' ''rotate 90 degrees'' =
     (Inl EditFailed,
      [CallGenerateContent \<lparr>apiKey = ''test-key''\<rparr>
         (editImage_request ''/9j/4AAQSkZJRg=='' ''image/jpeg'' ''rotate 90 degrees''),
       ConsoleError ''Error editing image:'' TypeError])"
  using editImage_malformed_response [of hollow_world "\<lparr>apiKey = ''test-key''\<rparr>"
      "''/9j/4AAQSkZJRg==''" "''image/jpeg''" "''rotate 90 degrees''"
      "\<lparr>candidates = Some [\<lparr>content = None\<rparr>], response_text = None\<rparr>"]
  by (simp add: hollow_world_def stub_world_def getAiClient_def hollow_generateContent_def)

subsection \<open>getPosturePrompts\<close>

lemma getPosturePrompts_no_client:
  "getAiClient w = Inl e \<Longrightarrow>
   getPosturePrompts w =
     (Inl PromptFetchFailed, [ConsoleError ''Error fetching posture prompts:'' e])"
  by (simp add: getPosturePrompts_def getPosturePrompts_try_def catch_log_rethrow_def
      PromptFetchFailed_def)

lemma getPosturePrompts_remote_error:
  "getAiClient w = Inr ai \<Longrightarrow>
   models_generateContent w ai getPosturePrompts_request = Inl e \<Longrightarrow>
   getPosturePrompts w =
     (Inl PromptFetchFailed,
      [CallGenerateContent ai getPosturePrompts_request,
       ConsoleError ''Error fetching posture prompts:'' e])"
  by (simp add: getPosturePrompts_def getPosturePrompts_try_def catch_log_rethrow_def
      PromptFetchFailed_def)

lemma getPosturePrompts_response:
  "getAiClient w = Inr ai \<Longrightarrow>
   models_generateContent w ai getPosturePrompts_request = Inr r \<Longrightarrow>
   fst (getPosturePrompts w) =
     (case getPosturePrompts_result w r of
        Inl e \<Rightarrow> Inl PromptFetchFailed
      | Inr v \<Rightarrow> Inr v)"
  by (simp add: getPosturePrompts_def getPosturePrompts_try_def fst_catch_log_rethrow
      PromptFetchFailed_def split: sum.splits)

lemma getPosturePrompts_success:
  "getAiClient w = Inr ai \<Longrightarrow>
   models_generateContent w ai getPosturePrompts_request = Inr r \<Longrightarrow>
   response_text r = Some t \<Longrightarrow>
   JSON_parse w (trim t) = Inr v \<Longrightarrow>
   fst (getPosturePrompts w) = Inr v"
  by (simp add: getPosturePrompts_response getPosturePrompts_result_def)

lemma getPosturePrompts_success_only:
  assumes "fst (getPosturePrompts w) = Inr v"
  shows "\<exists>ai r t. getAiClient w = Inr ai \<and>
           models_generateContent w ai getPosturePrompts_request = Inr r \<and>
           response_text r = Some t \<and> JSON_parse w (trim t) = Inr v"
proof (cases "getAiClient w")
  case (Inl e)
  with assms show ?thesis
    by (simp add: getPosturePrompts_no_client)
next
  case client: (Inr ai)
  show ?thesis
  proof (cases "models_generateContent w ai getPosturePrompts_request")
    case (Inl e)
    with client assms show ?thesis
      by (simp add: getPosturePrompts_remote_error)
  next
    case (Inr r)
    with client assms show ?thesis
      by (auto simp: getPosturePrompts_response getPosturePrompts_result_def
          split: sum.splits option.splits)
  qed
qed

lemma getPosturePrompts_failure:
  "fst (getPosturePrompts w) = Inl PromptFetchFailed \<or> (\<exists>v. fst (getPosturePrompts w) = Inr v)"
  by (simp add: getPosturePrompts_def fst_catch_log_rethrow PromptFetchFailed_def
      split: sum.splits)

lemma json_parse_stub_prompts_text: "json_parse (trim stub_prompts_text) = Inr (JArray stub_prompts)"
  by code_simp

lemma json_parse_partial_text:
  \<open>json_parse (trim '' [{"title":"Stand Tall"}] '') = Inr (JArray [JObject [(''title'', JString ''Stand Tall'')]])\<close>
  by code_simp

text \<open>
  C2, as the code has it. \<open>getPosturePrompts\<close> succeeds with \<open>v\<close> exactly when a
  credential is configured, the remote call returns a response with a text, and
  \<open>JSON.parse\<close> of the trimmed text yields \<open>v\<close>: the parsed value is returned without a
  check of its shape. Every failure is \<open>PromptFetchFailed\<close>.
\<close>

theorem getPosturePrompts_unchecked:
  "(fst (getPosturePrompts w) = Inr v) =
     (\<exists>ai r t. getAiClient w = Inr ai \<and>
        models_generateContent w ai getPosturePrompts_request = Inr r \<and>
        response_text r = Some t \<and> JSON_parse w (trim t) = Inr v) \<and>
   (fst (getPosturePrompts w) = Inl PromptFetchFailed \<or>
      (\<exists>u. fst (getPosturePrompts w) = Inr u))"
  using getPosturePrompts_success getPosturePrompts_success_only getPosturePrompts_failure
  by blast

theorem getPosturePrompts_unchecked_witness:
  \<open>fst (getPosturePrompts partial_world) = Inr (JArray [JObject [(''title'', JString ''Stand Tall'')]]) \<and>
   fst (getPosturePrompts partial_world) \<noteq> Inl PromptFetchFailed\<close>
proof -
  have \<open>\<exists>ai r t. getAiClient partial_world = Inr ai \<and>
      models_generateContent partial_world ai getPosturePrompts_request = Inr r \<and>
      response_text r = Some t \<and>
      JSON_parse partial_world (trim t) = Inr (JArray [JObject [(''title'', JString ''Stand Tall'')]])\<close>
    by (simp add: partial_world_def stub_world_def getAiClient_def partial_generateContent_def
        json_parse_partial_text)
  then have \<open>fst (getPosturePrompts partial_world) =
      Inr (JArray [JObject [(''title'', JString ''Stand Tall'')]])\<close>
    using getPosturePrompts_unchecked [of partial_world
        \<open>JArray [JObject [(''title'', JString ''Stand Tall'')]]\<close>]
    by blast
  then show ?thesis
    by simp
qed

text \<open>
  C2, as the claim states it, fails: for the response text \<open>[{"title":"Stand Tall"}]\<close>
  the call succeeds, and the element returned has no \<open>prompt\<close>.
\<close>

theorem getPosturePrompts_shape_counterexample:
  \<open>fst (getPosturePrompts partial_world) = Inr (JArray [JObject [(''title'', JString ''Stand Tall'')]]) \<and>
   \<not> spec_PosturePrompts (JArray [JObject [(''title'', JString ''Stand Tall'')]])\<close>
  by (simp add: getPosturePrompts_def getPosturePrompts_try_def getPosturePrompts_result_def
      catch_log_rethrow_def partial_world_def stub_world_def getAiClient_def
      partial_generateContent_def json_parse_partial_text nonempty_string_member_def)

text \<open>
  C7. With a credential configured, when the remote call returns a response whose
  trimmed text parses to the array \<open>xs\<close>, \<open>getPosturePrompts\<close> returns that array: the
  same elements in the same order, hence the same length. This holds for every array,
  those of the expected shape among them.
\<close>

theorem getPosturePrompts_parsed_array:
  assumes "getAiClient w = Inr ai"
    and "models_generateContent w ai getPosturePrompts_request = Inr r"
    and "response_text r = Some t"
    and "JSON_parse w (trim t) = Inr (JArray xs)"
  shows "fst (getPosturePrompts w) = Inr (JArray xs)"
  using assms by (rule getPosturePrompts_success)

theorem getPosturePrompts_parsed_array_witness:
  "fst (getPosturePrompts stub_world) = Inr (JArray stub_prompts) \<and>
   length stub_prompts = 8 \<and> spec_PosturePrompts (JArray stub_prompts)"
proof -
  have "fst (getPosturePrompts stub_world) = Inr (JArray stub_prompts)"
    using getPosturePrompts_parsed_array [of stub_world "\<lparr>apiKey = ''test-key''\<rparr>"
        stub_prompts_response stub_prompts_text stub_prompts]
    by (simp add: stub_world_def getAiClient_def stub_generateContent_def
        getPosturePrompts_request_def stub_prompts_response_def json_parse_stub_prompts_text)
  moreover have "length stub_prompts = 8"
    by (simp add: stub_prompts_def)
  moreover have "spec_PosturePrompts (JArray stub_prompts)"
    by (simp add: stub_prompts_def nonempty_string_member_def)
  ultimately show ?thesis
    by simp
qed

subsection \<open>Errors of the remote call\<close>

text \<open>
  C8. With a credential configured, whatever value \<open>e\<close> the remote call throws, each
  function logs \<open>e\<close> and throws its own fixed error: the error the caller receives does
  not depend on \<open>e\<close>.
\<close>

theorem remote_errors_replaced:
  assumes "getAiClient w = Inr ai"
  shows "(models_generateImages w ai (generateImages_request p) = Inl e \<longrightarrow>
            generateImage w p =
              (Inl GenerationFailed,
               [CallGenerateImages ai (generateImages_request p),
                ConsoleError ''Error generating image:'' e])) \<and>
         (models_generateContent w ai (editImage_request b m q) = Inl e \<longrightarrow>
            editImage w b m q =
              (Inl EditFailed,
               [CallGenerateContent ai (editImage_request b m q),
                ConsoleError ''Error editing image:'' e])) \<and>
         (models_generateContent w ai getPosturePrompts_request = Inl e \<longrightarrow>
            getPosturePrompts w =
              (Inl PromptFetchFailed,
               [CallGenerateContent ai getPosturePrompts_request,
                ConsoleError ''Error fetching posture prompts:'' e]))"
  using assms
  by (simp add: generateImage_remote_error editImage_remote_error
      getPosturePrompts_remote_error)

theorem remote_errors_replaced_witness:
  "fst (generateImage down_world ''a red cube'') = Inl GenerationFailed \<and>
   fst (editImage down_world ''/9j/4AAQSkZJRg=='' ''image/jpeg'' ''rotate 90 degrees'') =
     Inl EditFailed \<and>
   fst (getPosturePrompts down_world) = Inl PromptFetchFailed"
proof -
  have client: "getAiClient down_world = Inr \<lparr>apiKey = ''test-key''\<rparr>"
    by (simp add: down_world_def stub_world_def getAiClient_def)
  show ?thesis
    using remote_errors_replaced [OF client, of "''a red cube''"
        "ApiError 503 ''The service is currently unavailable.''"
        "''/9j/4AAQSkZJRg==''" "''image/jpeg''" "''rotate 90 degrees''"]
    by (simp add: down_world_def down_generateImages_def down_generateContent_def)
qed

subsection \<open>The credential\<close>

text \<open>
  C1, as the code has it. With no credential, \<open>getAiClient\<close> throws the missing-credential
  error inside each function's \<open>try\<close> block: the function logs it and fails with its own
  generic error, and no remote call is made.
\<close>

theorem missing_credential_generic:
  assumes "API_KEY w = None"
  shows "generateImage w p =
           (Inl GenerationFailed, [ConsoleError ''Error generating image:'' ConfigurationError]) \<and>
         editImage w b m q =
           (Inl EditFailed, [ConsoleError ''Error editing image:'' ConfigurationError]) \<and>
         getPosturePrompts w =
           (Inl PromptFetchFailed,
            [ConsoleError ''Error fetching posture prompts:'' ConfigurationError]) \<and>
         filter is_remote_call
           (snd (generateImage w p) @ snd (editImage w b m q) @ snd (getPosturePrompts w)) = []"
proof -
  have "getAiClient w = Inl ConfigurationError"
    using assms by (simp add: getAiClient_missing)
  then show ?thesis
    by (simp add: generateImage_no_client editImage_no_client getPosturePrompts_no_client)
qed

theorem missing_credential_generic_witness:
  "generateImage no_key_world ''a red cube'' =
     (Inl GenerationFailed, [ConsoleError ''Error generating image:'' ConfigurationError]) \<and>
   editImage no_key_world ''/9j/4AAQSkZJRg=='' ''image/jpeg'' ''rotate 90 degrees'' =
     (Inl EditFailed, [ConsoleError ''Error editing image:'' ConfigurationError]) \<and>
   getPosturePrompts no_key_world =
     (Inl PromptFetchFailed, [ConsoleError ''Error fetching posture prompts:'' ConfigurationError])"
  using missing_credential_generic [of no_key_world "''a red cube''" "''/9j/4AAQSkZJRg==''"
      "''image/jpeg''" "''rotate 90 degrees''"]
  by (simp add: no_key_world_def)

text \<open>
  C1, as the claim states it, fails: with no credential the error \<open>generateImage\<close> throws
  is its generic one, not the missing-credential error.
\<close>

theorem missing_credential_counterexample:
  "API_KEY no_key_world = None \<and>
   fst (generateImage no_key_world ''a red cube'') = Inl GenerationFailed \<and>
   fst (generateImage no_key_world ''a red cube'') \<noteq> Inl ConfigurationError"
  by (simp add: no_key_world_def generateImage_def generateImage_try_def getAiClient_def
      catch_log_rethrow_def GenerationFailed_def ConfigurationError_def)

text \<open>
  C10, as the code has it. An empty credential is treated as an absent one: each
  function behaves as it does with the variable unset, in result, log and remote calls.
  That behaviour is the one of C1: the missing-credential error is thrown by
  \<open>getAiClient\<close> and logged, the function fails with its generic error.
\<close>

theorem empty_credential_as_absent:
  assumes "API_KEY w = Some []"
  shows "getAiClient w = Inl ConfigurationError \<and>
         generateImage w p = generateImage (w\<lparr>API_KEY := None\<rparr>) p \<and>
         editImage w b m q = editImage (w\<lparr>API_KEY := None\<rparr>) b m q \<and>
         getPosturePrompts w = getPosturePrompts (w\<lparr>API_KEY := None\<rparr>) \<and>
         filter is_remote_call
           (snd (generateImage w p) @ snd (editImage w b m q) @ snd (getPosturePrompts w)) = []"
proof -
  have here: "getAiClient w = Inl ConfigurationError"
    using assms by (simp add: getAiClient_missing)
  have there: "getAiClient (w\<lparr>API_KEY := None\<rparr>) = Inl ConfigurationError"
    by (simp add: getAiClient_missing)
  show ?thesis
    by (simp add: here generateImage_no_client [OF here] generateImage_no_client [OF there]
        editImage_no_client [OF here] editImage_no_client [OF there]
        getPosturePrompts_no_client [OF here] getPosturePrompts_no_client [OF there])
qed

theorem empty_credential_as_absent_witness:
  "generateImage empty_key_world ''a red cube'' = generateImage no_key_world ''a red cube'' \<and>
   editImage empty_key_world ''/9j/4AAQSkZJRg=='' ''image/jpeg'' ''rotate 90 degrees'' =
     editImage no_key_world ''/9j/4AAQSkZJRg=='' ''image/jpeg'' ''rotate 90 degrees'' \<and>
   getPosturePrompts empty_key_world = getPosturePrompts no_key_world"
  using empty_credential_as_absent [of empty_key_world "''a red cube''" "''/9j/4AAQSkZJRg==''"
      "''image/jpeg''" "''rotate 90 degrees''"]
  by (simp add: empty_key_world_def no_key_world_def)

text \<open>
  C10, as the claim states it, fails: with an empty credential the error
  \<open>getPosturePrompts\<close> throws is its generic one, not the missing-credential error.
\<close>

theorem empty_credential_counterexample:
  "API_KEY empty_key_world = Some [] \<and>
   fst (getPosturePrompts empty_key_world) = Inl PromptFetchFailed \<and>
   fst (getPosturePrompts empty_key_world) \<noteq> Inl ConfigurationError"
  by (simp add: empty_key_world_def getPosturePrompts_def getPosturePrompts_try_def
      getAiClient_def catch_log_rethrow_def PromptFetchFailed_def ConfigurationError_def)

end
